theory Spec2Isabelle
  imports Main "HOL-Library.AList" "HOL-Library.List_Lexorder"
begin

section \<open>HeartbeatService: data model\<close>

text \<open>
  The service of \<^verbatim>\<open>class HeartbeatService extends EventEmitter\<close>. JavaScript numbers
  that hold millisecond timestamps and minute counts are integers here; a field that may be
  \<^verbatim>\<open>undefined\<close> is an option. The types of \<^verbatim>\<open>shared/types\<close> are
  reduced to the fields this class reads.
\<close>

text \<open>
  Workspace ids and workspace paths are trimmed and compared, so they are kept as JavaScript
  has them: the list of their UTF-16 code units. \<open>js\<close> writes one from ASCII text.
\<close>

type_synonym js_string = "nat list"

definition js :: "string \<Rightarrow> js_string" where
  "js s = map of_char s"

datatype heartbeat_status = StatusIdle | StatusRunning | StatusSleeping | StatusError

record agent_role =
  agent_id :: string
  displayName :: string
  heartbeatEnabled :: bool
  heartbeatIntervalMinutes :: "int option"
  heartbeatStaggerOffset :: "int option"
  lastHeartbeatAt :: "int option"

record agent_mention =
  mention_workspaceId :: "js_string option"
  createdAt :: int
  mentionType :: string
  mention_context :: "string option"

record task =
  task_id :: string
  task_workspaceId :: "js_string option"
  updatedAt :: "int option"
  task_status :: string
  task_title :: string

record work_items =
  pendingMentions :: "agent_mention list"
  assignedTasks :: "task list"
  relevantActivities :: "unit list"

datatype result_status = ResultOk | ResultWorkDone | ResultError

record heartbeat_result =
  res_agentRoleId :: string
  res_status :: result_status
  res_pendingMentions :: nat
  res_assignedTasks :: nat
  res_relevantActivities :: nat
  res_taskCreated :: "string option"
  res_error :: "string option"

datatype event_type = Started | WorkFound | NoWork | Completed | ErrorEvent

record heartbeat_event =
  ev_type :: event_type
  ev_agentRoleId :: string
  ev_agentName :: string
  ev_timestamp :: int
  ev_result :: "heartbeat_result option"
  ev_error :: "string option"

text \<open>
  What a run does to its collaborators, in the order it does it: events given to the
  emitter, status writes to the agent-role repository, the two reads of
  \<^verbatim>\<open>checkForWork\<close>, and calls of \<^verbatim>\<open>deps.createTask\<close>
  (workspace id, prompt, title, agent role id).
\<close>

datatype effect =
    Emit heartbeat_event
  | UpdateHeartbeatStatus string heartbeat_status "int option"
  | GetPendingForAgent string
  | GetTasksForAgent string
  | CreateTask js_string string string string

text \<open>
  \<^verbatim>\<open>HeartbeatServiceDeps\<close>: the collaborators, as the answers they give. A
  collaborator that may throw (or whose promise may reject) answers \<open>Inl message\<close>.
  \<open>buildRolePersonaPrompt\<close> is the imported helper of \<^verbatim>\<open>./role-persona\<close>, and
  \<open>localeCompare\<close> is \<^verbatim>\<open>String.prototype.localeCompare\<close>, whose collation is the
  host's.
\<close>

record deps =
  findById :: "string \<Rightarrow> agent_role option"
  findHeartbeatEnabled :: "agent_role list"
  getPendingForAgent :: "string \<Rightarrow> string + agent_mention list"
  getTasksForAgent :: "string \<Rightarrow> string + task list"
  createTask :: "js_string \<Rightarrow> string \<Rightarrow> string \<Rightarrow> string \<Rightarrow> string + task"
  getDefaultWorkspaceId :: "js_string option"
  getDefaultWorkspacePath :: "js_string option"
  getWorkspacePath :: "js_string \<Rightarrow> js_string option"
  buildRolePersonaPrompt :: "agent_role \<Rightarrow> js_string option \<Rightarrow> string"
  localeCompare :: "js_string \<Rightarrow> js_string \<Rightarrow> int"

text \<open>
  The service's own fields (\<open>timers\<close>, \<open>running\<close>, \<open>started\<close>), the value
  \<^verbatim>\<open>Date.now()\<close> reads, and the trace of effects so far. A timer is kept as the
  time it is due.
\<close>

record hb_state =
  timers :: "string \<rightharpoonup> int"
  running :: "string \<rightharpoonup> bool"
  started :: bool
  clock :: int
  effects :: "effect list"

section \<open>HeartbeatService: operations\<close>

definition errorResult :: "string \<Rightarrow> string \<Rightarrow> heartbeat_result" where
  "errorResult agentRoleId msg =
     \<lparr>res_agentRoleId = agentRoleId, res_status = ResultError, res_pendingMentions = 0,
      res_assignedTasks = 0, res_relevantActivities = 0, res_taskCreated = None,
      res_error = Some msg\<rparr>"

definition emitHeartbeatEvent :: "heartbeat_event \<Rightarrow> hb_state \<Rightarrow> hb_state" where
  "emitHeartbeatEvent event s = s\<lparr>effects := effects s @ [Emit event]\<rparr>"

definition updateHeartbeatStatus ::
  "string \<Rightarrow> heartbeat_status \<Rightarrow> int option \<Rightarrow> hb_state \<Rightarrow> hb_state" where
  "updateHeartbeatStatus agentRoleId status lastAt s =
     s\<lparr>effects := effects s @ [UpdateHeartbeatStatus agentRoleId status lastAt]\<rparr>"

definition mkEvent ::
  "event_type \<Rightarrow> agent_role \<Rightarrow> hb_state \<Rightarrow> heartbeat_result option \<Rightarrow> string option
     \<Rightarrow> heartbeat_event" where
  "mkEvent ty agent s res err =
     \<lparr>ev_type = ty, ev_agentRoleId = agent_id agent, ev_agentName = displayName agent,
      ev_timestamp = clock s, ev_result = res, ev_error = err\<rparr>"

text \<open>\<^verbatim>\<open>checkForWork\<close>: two reads; the second is not made when the first throws.\<close>

definition checkForWork :: "deps \<Rightarrow> agent_role \<Rightarrow> hb_state \<Rightarrow> (string + work_items) \<times> hb_state" where
  "checkForWork d agent s =
     (let s1 = s\<lparr>effects := effects s @ [GetPendingForAgent (agent_id agent)]\<rparr> in
      case getPendingForAgent d (agent_id agent) of
        Inl e \<Rightarrow> (Inl e, s1)
      | Inr ms \<Rightarrow>
          (let s2 = s1\<lparr>effects := effects s1 @ [GetTasksForAgent (agent_id agent)]\<rparr> in
           case getTasksForAgent d (agent_id agent) of
             Inl e \<Rightarrow> (Inl e, s2)
           | Inr ts \<Rightarrow>
               (Inr \<lparr>pendingMentions = ms, assignedTasks = ts, relevantActivities = []\<rparr>, s2)))"

subsection \<open>selectWorkspaceForWork\<close>

text \<open>
  \<^verbatim>\<open>String.prototype.trim\<close> strips the code units that ECMAScript counts as white
  space or as line terminators from both ends: U+0009 to U+000D, U+0020, U+00A0, U+1680,
  U+2000 to U+200A, U+2028, U+2029, U+202F, U+205F, U+3000 and U+FEFF.
\<close>

definition isWhiteSpace :: "nat \<Rightarrow> bool" where
  "isWhiteSpace c =
     (c \<in> set [0x0009, 0x000A, 0x000B, 0x000C, 0x000D, 0x0020, 0x00A0, 0x1680,
                 0x2000, 0x2001, 0x2002, 0x2003, 0x2004, 0x2005, 0x2006, 0x2007, 0x2008,
                 0x2009, 0x200A, 0x2028, 0x2029, 0x202F, 0x205F, 0x3000, 0xFEFF])"

definition trim :: "js_string \<Rightarrow> js_string" where
  "trim s = rev (dropWhile isWhiteSpace (rev (dropWhile isWhiteSpace s)))"

text \<open>
  The \<^verbatim>\<open>Map<string, {score, priority}>\<close> as an association list in insertion order:
  \<open>map_of\<close> is \<^verbatim>\<open>get\<close>, and \<open>AList.update\<close> is \<^verbatim>\<open>set\<close> (an existing key
  keeps its place, a new key goes last).
\<close>

type_synonym candidate = "js_string \<times> int \<times> int"

definition addCandidate :: "js_string option \<Rightarrow> int \<Rightarrow> int \<Rightarrow> candidate list \<Rightarrow> candidate list" where
  "addCandidate workspaceIdRaw score priority candidates =
     (let workspaceId = (case workspaceIdRaw of Some w \<Rightarrow> trim w | None \<Rightarrow> []) in
      if workspaceId = [] then candidates
      else case map_of candidates workspaceId of
        None \<Rightarrow> AList.update workspaceId (score, priority) candidates
      | Some (escore, eprio) \<Rightarrow>
          if score > escore \<or> (score = escore \<and> priority > eprio)
          then AList.update workspaceId (score, priority) candidates
          else candidates)"

definition collectCandidates :: "work_items \<Rightarrow> candidate list" where
  "collectCandidates work =
     foldl (\<lambda>c t. addCandidate (task_workspaceId t)
                     (case updatedAt t of Some u \<Rightarrow> u | None \<Rightarrow> 0) 1 c)
       (foldl (\<lambda>c m. addCandidate (mention_workspaceId m) (createdAt m) 2 c)
          [] (pendingMentions work))
       (assignedTasks work)"

text \<open>The comparator given to \<^verbatim>\<open>sort\<close>: negative when \<open>a\<close> goes first.\<close>

definition compareCandidates :: "(js_string \<Rightarrow> js_string \<Rightarrow> int) \<Rightarrow> candidate \<Rightarrow> candidate \<Rightarrow> int" where
  "compareCandidates lc a b =
     (case (a, b) of ((aid, ascore, aprio), (bid, bscore, bprio)) \<Rightarrow>
        if bscore \<noteq> ascore then bscore - ascore
        else if bprio \<noteq> aprio then bprio - aprio
        else lc aid bid)"

text \<open>
  \<^verbatim>\<open>Array.prototype.sort\<close> with a comparator: a stable sort, here by insertion. An
  element goes before the first one it does not compare greater than, so equal elements keep
  their order.
\<close>

fun insertSorted :: "('a \<Rightarrow> 'a \<Rightarrow> int) \<Rightarrow> 'a \<Rightarrow> 'a list \<Rightarrow> 'a list" where
  "insertSorted cmp x [] = [x]"
| "insertSorted cmp x (y # ys) =
     (if cmp x y \<le> 0 then x # y # ys else y # insertSorted cmp x ys)"

definition arraySort :: "('a \<Rightarrow> 'a \<Rightarrow> int) \<Rightarrow> 'a list \<Rightarrow> 'a list" where
  "arraySort cmp xs = foldr (insertSorted cmp) xs []"

record selected_workspace =
  workspaceId :: js_string
  workspacePath :: js_string

text \<open>The last loop: the first sorted candidate whose path is a non-blank string.\<close>

fun firstWithPath :: "deps \<Rightarrow> candidate list \<Rightarrow> selected_workspace option" where
  "firstWithPath d [] = None"
| "firstWithPath d (c # cs) =
     (case getWorkspacePath d (fst c) of
        None \<Rightarrow> firstWithPath d cs
      | Some p \<Rightarrow>
          if trim p = [] then firstWithPath d cs
          else Some \<lparr>workspaceId = fst c, workspacePath = p\<rparr>)"

definition selectWorkspaceForWork :: "deps \<Rightarrow> work_items \<Rightarrow> selected_workspace option" where
  "selectWorkspaceForWork d work =
     firstWithPath d (arraySort (compareCandidates (localeCompare d)) (collectCandidates work))"

subsection \<open>buildHeartbeatPrompt\<close>

definition joinLines :: "string list \<Rightarrow> string" where
  "joinLines ls = (case ls of [] \<Rightarrow> [] | l # rest \<Rightarrow> l @ concat (map (\<lambda>x. CHR 0x0A # x) rest))"

definition mentionLines :: "agent_mention \<Rightarrow> string list" where
  "mentionLines mention =
     (''- Type: '' @ mentionType mention) #
     (case mention_context mention of
        None \<Rightarrow> []
      | Some c \<Rightarrow> if c = [] then [] else [''  Context: '' @ c])"

definition taskLine :: "task \<Rightarrow> string" where
  "taskLine t = ''- ['' @ task_status t @ ''] '' @ task_title t"

definition buildHeartbeatPrompt ::
  "deps \<Rightarrow> agent_role \<Rightarrow> work_items \<Rightarrow> js_string option \<Rightarrow> string" where
  "buildHeartbeatPrompt d agent work wsPath =
     (let lines0 = [''You are '' @ displayName agent @
                      '', waking up for a scheduled heartbeat check.'', []];
          rolePersona = buildRolePersonaPrompt d agent wsPath;
          lines1 = lines0 @ (if rolePersona \<noteq> [] then [rolePersona, []] else []);
          lines2 = lines1 @
            (if length (pendingMentions work) > 0
             then ''## Pending @Mentions'' # concat (map mentionLines (pendingMentions work)) @ [[]]
             else []);
          lines3 = lines2 @
            (if length (assignedTasks work) > 0
             then ''## Assigned Tasks'' # map taskLine (assignedTasks work) @ [[]]
             else []);
          lines4 = lines3 @ [''## Instructions''] @
            (if length (pendingMentions work) > 0 \<or> length (assignedTasks work) > 0
             then [''Please review the above items and take appropriate action.'',
                   ''For mentions, acknowledge them and respond as needed.'',
                   ''For assigned tasks, continue working on them or report any blockers.'']
             else [''No pending work found. HEARTBEAT_OK.''])
      in joinLines lines4)"

subsection \<open>executeHeartbeat\<close>

text \<open>
  \<^verbatim>\<open>executeHeartbeat\<close> is an async function with two \<^verbatim>\<open>await\<close>s. Each stretch
  between them runs without interruption; at an \<^verbatim>\<open>await\<close> the run is suspended and
  other calls of the service may run before it resumes. The three stretches are
  \<open>executeHeartbeat_begin\<close>, \<open>afterCheckForWork\<close> and \<open>afterCreateTask\<close>; a suspended
  run is the value it waits for together with what it resumes with.
\<close>

definition finallyBlock :: "agent_role \<Rightarrow> hb_state \<Rightarrow> hb_state" where
  "finallyBlock agent s = s\<lparr>running := (running s)(agent_id agent \<mapsto> False)\<rparr>"

definition catchBlock :: "agent_role \<Rightarrow> string \<Rightarrow> hb_state \<Rightarrow> heartbeat_result \<times> hb_state" where
  "catchBlock agent errorMessage s =
     (let s1 = updateHeartbeatStatus (agent_id agent) StatusError None s;
          result = errorResult (agent_id agent) errorMessage;
          s2 = emitHeartbeatEvent (mkEvent ErrorEvent agent s1 (Some result) (Some errorMessage)) s1
      in (result, finallyBlock agent s2))"

text \<open>The end of the \<^verbatim>\<open>try\<close> block, after the \<^verbatim>\<open>if (hasWork)\<close> statement.\<close>

definition completeRun :: "agent_role \<Rightarrow> heartbeat_result \<Rightarrow> hb_state \<Rightarrow> heartbeat_result \<times> hb_state" where
  "completeRun agent result s =
     (let s1 = updateHeartbeatStatus (agent_id agent) StatusSleeping (Some (clock s)) s;
          s2 = emitHeartbeatEvent (mkEvent Completed agent s1 (Some result) None) s1
      in (result, finallyBlock agent s2))"

definition workFoundTail :: "agent_role \<Rightarrow> heartbeat_result \<Rightarrow> hb_state \<Rightarrow> heartbeat_result \<times> hb_state" where
  "workFoundTail agent result s =
     completeRun agent result (emitHeartbeatEvent (mkEvent WorkFound agent s (Some result) None) s)"

datatype suspended =
    AwaitCheckForWork agent_role "string + work_items"
  | AwaitCreateTask agent_role heartbeat_result "string + task"

definition executeHeartbeat_begin ::
  "deps \<Rightarrow> agent_role \<Rightarrow> hb_state \<Rightarrow> (heartbeat_result + suspended) \<times> hb_state" where
  "executeHeartbeat_begin d agent s =
     (if running s (agent_id agent) = Some True
      then (Inl (errorResult (agent_id agent) ''Heartbeat already running''), s)
      else
        (let s1 = s\<lparr>running := (running s)(agent_id agent \<mapsto> True)\<rparr>;
             s2 = updateHeartbeatStatus (agent_id agent) StatusRunning None s1;
             s3 = emitHeartbeatEvent (mkEvent Started agent s2 None None) s2
         in case checkForWork d agent s3 of
              (outcome, s4) \<Rightarrow> (Inr (AwaitCheckForWork agent outcome), s4)))"

text \<open>
  \<^verbatim>\<open>selectedWorkspace?.workspaceId || this.deps.getDefaultWorkspaceId()\<close>, then
  \<^verbatim>\<open>if (workspaceId)\<close>: an empty string is falsy.
\<close>

definition targetWorkspaceId :: "deps \<Rightarrow> selected_workspace option \<Rightarrow> js_string option" where
  "targetWorkspaceId d sel =
     (let chosen = (case sel of
                      Some x \<Rightarrow> if workspaceId x \<noteq> [] then Some (workspaceId x)
                                else getDefaultWorkspaceId d
                    | None \<Rightarrow> getDefaultWorkspaceId d)
      in case chosen of Some w \<Rightarrow> if w \<noteq> [] then Some w else None | None \<Rightarrow> None)"

definition targetWorkspacePath :: "deps \<Rightarrow> selected_workspace option \<Rightarrow> js_string option" where
  "targetWorkspacePath d sel =
     (case sel of Some x \<Rightarrow> Some (workspacePath x) | None \<Rightarrow> getDefaultWorkspacePath d)"

definition afterCheckForWork ::
  "deps \<Rightarrow> agent_role \<Rightarrow> string + work_items \<Rightarrow> hb_state
     \<Rightarrow> (heartbeat_result + suspended) \<times> hb_state" where
  "afterCheckForWork d agent outcome s =
     (case outcome of
        Inl errorMessage \<Rightarrow> (case catchBlock agent errorMessage s of (r, s') \<Rightarrow> (Inl r, s'))
      | Inr workItems \<Rightarrow>
          (let result = \<lparr>res_agentRoleId = agent_id agent, res_status = ResultOk,
                         res_pendingMentions = length (pendingMentions workItems),
                         res_assignedTasks = length (assignedTasks workItems),
                         res_relevantActivities = length (relevantActivities workItems),
                         res_taskCreated = None, res_error = None\<rparr>;
               hasWork = (length (pendingMentions workItems) > 0
                          \<or> length (assignedTasks workItems) > 0)
           in if hasWork then
                (let result1 = result\<lparr>res_status := ResultWorkDone\<rparr>;
                     selectedWorkspace = selectWorkspaceForWork d workItems;
                     wsPath = targetWorkspacePath d selectedWorkspace;
                     prompt = buildHeartbeatPrompt d agent workItems wsPath;
                     title = ''Heartbeat: '' @ displayName agent
                 in case targetWorkspaceId d selectedWorkspace of
                      Some w \<Rightarrow>
                        (Inr (AwaitCreateTask agent result1
                                (createTask d w prompt title (agent_id agent))),
                         s\<lparr>effects := effects s @ [CreateTask w prompt title (agent_id agent)]\<rparr>)
                    | None \<Rightarrow>
                        (case workFoundTail agent result1 s of (r, s') \<Rightarrow> (Inl r, s')))
              else
                (case completeRun agent result
                        (emitHeartbeatEvent (mkEvent NoWork agent s (Some result) None) s) of
                   (r, s') \<Rightarrow> (Inl r, s'))))"

definition afterCreateTask ::
  "agent_role \<Rightarrow> heartbeat_result \<Rightarrow> string + task \<Rightarrow> hb_state \<Rightarrow> heartbeat_result \<times> hb_state" where
  "afterCreateTask agent result outcome s =
     (case outcome of
        Inl errorMessage \<Rightarrow> catchBlock agent errorMessage s
      | Inr t \<Rightarrow> workFoundTail agent (result\<lparr>res_taskCreated := Some (task_id t)\<rparr>) s)"

text \<open>Resuming a suspended run with the value it waited for.\<close>

definition resume :: "deps \<Rightarrow> suspended \<Rightarrow> hb_state \<Rightarrow> (heartbeat_result + suspended) \<times> hb_state" where
  "resume d k s =
     (case k of
        AwaitCheckForWork agent outcome \<Rightarrow> afterCheckForWork d agent outcome s
      | AwaitCreateTask agent result outcome \<Rightarrow>
          (case afterCreateTask agent result outcome s of (r, s') \<Rightarrow> (Inl r, s')))"

text \<open>
  A run from its entry to its return, when nothing else runs at its \<^verbatim>\<open>await\<close>s: the
  three stretches one after the other. It always ends with a result (lemma
  \<open>executeHeartbeat_returns\<close> below).
\<close>

definition executeHeartbeat ::
  "deps \<Rightarrow> agent_role \<Rightarrow> hb_state \<Rightarrow> (heartbeat_result + suspended) \<times> hb_state" where
  "executeHeartbeat d agent s =
     (case executeHeartbeat_begin d agent s of
        (Inl r, s1) \<Rightarrow> (Inl r, s1)
      | (Inr k1, s1) \<Rightarrow>
          (case resume d k1 s1 of
             (Inl r, s2) \<Rightarrow> (Inl r, s2)
           | (Inr k2, s2) \<Rightarrow> resume d k2 s2))"

subsection \<open>Timers and the public methods\<close>

definition orDefault :: "int option \<Rightarrow> int \<Rightarrow> int" where
  "orDefault v dflt = (case v of None \<Rightarrow> dflt | Some n \<Rightarrow> if n = 0 then dflt else n)"

definition scheduleHeartbeat :: "agent_role \<Rightarrow> hb_state \<Rightarrow> hb_state" where
  "scheduleHeartbeat agent s =
     (if \<not> started s \<or> \<not> heartbeatEnabled agent then s
      else
        (let intervalMs = orDefault (heartbeatIntervalMinutes agent) 15 * 60 * 1000;
             staggerMs = orDefault (heartbeatStaggerOffset agent) 0 * 60 * 1000;
             now = clock s;
             lastHeartbeat = orDefault (lastHeartbeatAt agent) 0;
             nextHeartbeat = lastHeartbeat + intervalMs + staggerMs;
             delayMs = max 0 (nextHeartbeat - now)
         in s\<lparr>timers := (timers s)(agent_id agent \<mapsto> now + delayMs)\<rparr>))"

definition cancelHeartbeat :: "string \<Rightarrow> hb_state \<Rightarrow> hb_state" where
  "cancelHeartbeat agentRoleId s =
     s\<lparr>timers := (timers s)(agentRoleId := None), running := (running s)(agentRoleId := None)\<rparr>"

definition updateAgentConfig :: "deps \<Rightarrow> string \<Rightarrow> bool \<Rightarrow> hb_state \<Rightarrow> hb_state" where
  "updateAgentConfig d agentRoleId configEnabled s =
     (let s1 = cancelHeartbeat agentRoleId s in
      case findById d agentRoleId of
        None \<Rightarrow> s1
      | Some agent \<Rightarrow>
          if configEnabled \<and> heartbeatEnabled agent then scheduleHeartbeat agent s1 else s1)"

definition start :: "deps \<Rightarrow> hb_state \<Rightarrow> hb_state" where
  "start d s =
     (if started s then s
      else foldl (\<lambda>st agent. scheduleHeartbeat agent st) (s\<lparr>started := True\<rparr>)
             (findHeartbeatEnabled d))"

definition stop :: "hb_state \<Rightarrow> hb_state" where
  "stop s = s\<lparr>started := False, timers := Map.empty, running := Map.empty\<rparr>"

text \<open>
  \<^verbatim>\<open>triggerHeartbeat\<close>: the manual entry. The timer's callback is \<open>timerFire\<close>, up to
  its \<^verbatim>\<open>await\<close> of the run.
\<close>

definition triggerHeartbeat ::
  "deps \<Rightarrow> string \<Rightarrow> hb_state \<Rightarrow> (heartbeat_result + suspended) \<times> hb_state" where
  "triggerHeartbeat d agentRoleId s =
     (case findById d agentRoleId of
        None \<Rightarrow> (Inl (errorResult agentRoleId ''Agent role not found''), s)
      | Some agent \<Rightarrow> executeHeartbeat_begin d agent s)"

definition timerFire ::
  "deps \<Rightarrow> string \<Rightarrow> hb_state \<Rightarrow> (heartbeat_result + suspended) option \<times> hb_state" where
  "timerFire d agentRoleId s =
     (case findById d agentRoleId of
        None \<Rightarrow> (None, s)
      | Some currentAgent \<Rightarrow>
          if heartbeatEnabled currentAgent
          then (case executeHeartbeat_begin d currentAgent s of (r, s') \<Rightarrow> (Some r, s'))
          else (None, s))"

text \<open>The calls of \<^verbatim>\<open>createTask\<close>, the events of one type and the reads of
  \<^verbatim>\<open>checkForWork\<close> in a trace.\<close>

definition createdTasks :: "effect list \<Rightarrow> effect list" where
  "createdTasks es = filter (\<lambda>e. case e of CreateTask w p t a \<Rightarrow> True | _ \<Rightarrow> False) es"

definition eventsOfType :: "event_type \<Rightarrow> effect list \<Rightarrow> effect list" where
  "eventsOfType ty es = filter (\<lambda>e. case e of Emit ev \<Rightarrow> ev_type ev = ty | _ \<Rightarrow> False) es"

definition workChecks :: "string \<Rightarrow> effect list \<Rightarrow> effect list" where
  "workChecks agentRoleId es =
     filter (\<lambda>e. e = GetPendingForAgent agentRoleId \<or> e = GetTasksForAgent agentRoleId) es"

section \<open>The workspace a run with work targets, as the specification words it\<close>

text \<open>
  A contribution is a workspace id (trimmed), a timestamp and a weight: a pending mention
  contributes its creation time with weight 2, an assigned task its update time (0 when it
  has none) with weight 1. The candidate of a workspace is its most recent contribution, the
  heavier one when two are equally recent. One candidate ranks before another when it is more
  recent, or as recent and heavier, or as recent and as heavy and its id does not compare
  greater.
\<close>


definition candidateKey :: "js_string option \<Rightarrow> js_string" where
  "candidateKey raw = (case raw of Some w \<Rightarrow> trim w | None \<Rightarrow> [])"

definition contributions :: "work_items \<Rightarrow> candidate list" where
  "contributions work =
     map (\<lambda>m. (candidateKey (mention_workspaceId m), createdAt m, 2)) (pendingMentions work) @
     map (\<lambda>t. (candidateKey (task_workspaceId t),
                (case updatedAt t of Some u \<Rightarrow> u | None \<Rightarrow> 0), 1)) (assignedTasks work)"

definition hasPath :: "deps \<Rightarrow> js_string \<Rightarrow> bool" where
  "hasPath d w = (case getWorkspacePath d w of None \<Rightarrow> False | Some p \<Rightarrow> trim p \<noteq> [])"

definition ranksBefore :: "(js_string \<Rightarrow> js_string \<Rightarrow> int) \<Rightarrow> candidate \<Rightarrow> candidate \<Rightarrow> bool" where
  "ranksBefore lc a b =
     (case (a, b) of ((aid, ascore, aprio), (bid, bscore, bprio)) \<Rightarrow>
        ascore > bscore \<or>
        (ascore = bscore \<and> (aprio > bprio \<or> (aprio = bprio \<and> lc aid bid \<le> 0))))"

definition isCandidate :: "work_items \<Rightarrow> candidate \<Rightarrow> bool" where
  "isCandidate work c \<longleftrightarrow>
     fst c \<noteq> [] \<and> c \<in> set (contributions work) \<and>
     (\<forall>c' \<in> set (contributions work). fst c' = fst c \<longrightarrow>
        fst (snd c') < fst (snd c) \<or> (fst (snd c') = fst (snd c) \<and> snd (snd c') \<le> snd (snd c)))"

definition bestCandidate :: "deps \<Rightarrow> work_items \<Rightarrow> js_string \<Rightarrow> bool" where
  "bestCandidate d work w \<longleftrightarrow>
     (\<exists>c \<in> set (contributions work). fst c = w \<and> isCandidate work c \<and> hasPath d w \<and>
        (\<forall>c' \<in> set (contributions work). isCandidate work c' \<and> hasPath d (fst c') \<longrightarrow>
           ranksBefore (localeCompare d) c c'))"

section \<open>Concrete collaborators and states\<close>


definition lexicalCompare :: "js_string \<Rightarrow> js_string \<Rightarrow> int" where
  "lexicalCompare a b = (if a < b then - 1 else if a = b then 0 else 1)"

definition agentA :: agent_role where
  "agentA = \<lparr>agent_id = ''agent-a'', displayName = ''Scout'', heartbeatEnabled = True,
     heartbeatIntervalMinutes = Some 15, heartbeatStaggerOffset = None, lastHeartbeatAt = None\<rparr>"

definition newTask :: task where
  "newTask = \<lparr>task_id = ''task-new'', task_workspaceId = None, updatedAt = None,
      task_status = ''pending'', task_title = ''Heartbeat: Scout''\<rparr>"

definition depsIdle :: deps where
  "depsIdle = \<lparr>findById = (\<lambda>i. if i = ''agent-a'' then Some agentA else None),
     findHeartbeatEnabled = [agentA],
     getPendingForAgent = (\<lambda>i. Inr []), getTasksForAgent = (\<lambda>i. Inr []),
     createTask = (\<lambda>w p t a. Inr newTask),
     getDefaultWorkspaceId = None, getDefaultWorkspacePath = None,
     getWorkspacePath = (\<lambda>w. None), buildRolePersonaPrompt = (\<lambda>a p. []),
     localeCompare = lexicalCompare\<rparr>"

definition mention1 :: agent_mention where
  "mention1 = \<lparr>mention_workspaceId = Some (js ''ws-1''), createdAt = 100, mentionType = ''request'',
     mention_context = Some ''please review''\<rparr>"

definition task2 :: task where
  "task2 = \<lparr>task_id = ''t2'', task_workspaceId = Some (js '' ws-2 ''), updatedAt = Some 50,
      task_status = ''pending'', task_title = ''Write report''\<rparr>"

definition workBusy :: work_items where
  "workBusy = \<lparr>pendingMentions = [mention1], assignedTasks = [task2], relevantActivities = []\<rparr>"

definition depsBusy :: deps where
  "depsBusy = depsIdle\<lparr>getPendingForAgent := (\<lambda>i. Inr [mention1]),
      getTasksForAgent := (\<lambda>i. Inr [task2]),
      getWorkspacePath := (\<lambda>w. if w = js ''ws-1'' then Some (js ''/work/one'')
                                 else if w = js ''ws-2'' then Some (js ''/work/two'') else None)\<rparr>"



definition initState :: hb_state where
  "initState = \<lparr>timers = Map.empty, running = Map.empty, started = True,
                 clock = 1700000000000, effects = []\<rparr>"

definition mentionNbsp :: agent_mention where
  "mentionNbsp = \<lparr>mention_workspaceId = Some (0xA0 # js ''ws-1'' @ [0xA0]), createdAt = 100,
     mentionType = ''request'', mention_context = None\<rparr>"

definition workNbsp :: work_items where
  "workNbsp = \<lparr>pendingMentions = [mentionNbsp], assignedTasks = [], relevantActivities = []\<rparr>"

definition depsNbsp :: deps where
  "depsNbsp = depsBusy\<lparr>getPendingForAgent := (\<lambda>i. Inr [mentionNbsp]),
      getTasksForAgent := (\<lambda>i. Inr []),
      getDefaultWorkspaceId := Some (js ''ws-default'')\<rparr>"

section \<open>HeartbeatService: lemmas\<close>































lemma checkForWork_found:
  "getPendingForAgent d (agent_id agent) = Inr ms \<Longrightarrow>
   getTasksForAgent d (agent_id agent) = Inr ts \<Longrightarrow>
   checkForWork d agent s =
     (Inr \<lparr>pendingMentions = ms, assignedTasks = ts, relevantActivities = []\<rparr>,
      s\<lparr>effects := effects s @ [GetPendingForAgent (agent_id agent),
                                  GetTasksForAgent (agent_id agent)]\<rparr>)"
  by (simp add: checkForWork_def)

lemma executeHeartbeat_begin_found:
  assumes "running s (agent_id agent) \<noteq> Some True"
    and "getPendingForAgent d (agent_id agent) = Inr ms"
    and "getTasksForAgent d (agent_id agent) = Inr ts"
  shows "executeHeartbeat_begin d agent s =
     (Inr (AwaitCheckForWork agent
            (Inr \<lparr>pendingMentions = ms, assignedTasks = ts, relevantActivities = []\<rparr>)),
      s\<lparr>running := (running s)(agent_id agent \<mapsto> True),
        effects := effects s @
          [UpdateHeartbeatStatus (agent_id agent) StatusRunning None,
           Emit (mkEvent Started agent s None None),
           GetPendingForAgent (agent_id agent), GetTasksForAgent (agent_id agent)]\<rparr>)"
  using assms
  by (simp add: executeHeartbeat_begin_def checkForWork_found updateHeartbeatStatus_def
        emitHeartbeatEvent_def mkEvent_def)

lemma completeRun_effects:
  "completeRun agent result s =
     (result, s\<lparr>running := (running s)(agent_id agent \<mapsto> False),
        effects := effects s @
          [UpdateHeartbeatStatus (agent_id agent) StatusSleeping (Some (clock s)),
           Emit (mkEvent Completed agent s (Some result) None)]\<rparr>)"
  by (simp add: completeRun_def updateHeartbeatStatus_def emitHeartbeatEvent_def mkEvent_def
        finallyBlock_def)

lemma catchBlock_effects:
  "catchBlock agent msg s =
     (errorResult (agent_id agent) msg,
      s\<lparr>running := (running s)(agent_id agent \<mapsto> False),
        effects := effects s @
          [UpdateHeartbeatStatus (agent_id agent) StatusError None,
           Emit (mkEvent ErrorEvent agent s (Some (errorResult (agent_id agent) msg))
                   (Some msg))]\<rparr>)"
  by (simp add: catchBlock_def updateHeartbeatStatus_def emitHeartbeatEvent_def mkEvent_def
        finallyBlock_def Let_def)

lemma workFoundTail_effects:
  "workFoundTail agent result s =
     (result, s\<lparr>running := (running s)(agent_id agent \<mapsto> False),
        effects := effects s @
          [Emit (mkEvent WorkFound agent s (Some result) None),
           UpdateHeartbeatStatus (agent_id agent) StatusSleeping (Some (clock s)),
           Emit (mkEvent Completed agent s (Some result) None)]\<rparr>)"
  by (simp add: workFoundTail_def completeRun_effects emitHeartbeatEvent_def mkEvent_def)

lemma createdTasks_append: "createdTasks (xs @ ys) = createdTasks xs @ createdTasks ys"
  by (simp add: createdTasks_def)

lemma createdTasks_afterCreateTask:
  "createdTasks (effects (snd (afterCreateTask agent result outcome s))) =
     createdTasks (effects s)"
  by (cases outcome)
     (simp_all add: afterCreateTask_def catchBlock_effects workFoundTail_effects
        createdTasks_append, simp_all add: createdTasks_def)

lemma snd_resume_task:
  "snd (resume d (AwaitCreateTask agent r out) s) = snd (afterCreateTask agent r out s)"
  by (simp add: resume_def split: prod.splits)


lemma createdTasks_with_work:
  assumes "running s (agent_id agent) \<noteq> Some True"
    and "getPendingForAgent d (agent_id agent) = Inr ms"
    and "getTasksForAgent d (agent_id agent) = Inr ts"
    and "ms \<noteq> [] \<or> ts \<noteq> []"
  shows "createdTasks (effects (snd (executeHeartbeat d agent s))) =
     createdTasks (effects s) @
     (let work = \<lparr>pendingMentions = ms, assignedTasks = ts, relevantActivities = []\<rparr>;
          sel = selectWorkspaceForWork d work
      in case targetWorkspaceId d sel of
           None \<Rightarrow> []
         | Some w \<Rightarrow>
             [CreateTask w (buildHeartbeatPrompt d agent work (targetWorkspacePath d sel))
                (''Heartbeat: '' @ displayName agent) (agent_id agent)])"
proof -
  let ?work = "\<lparr>pendingMentions = ms, assignedTasks = ts, relevantActivities = []\<rparr>"
  let ?sel = "selectWorkspaceForWork d ?work"
  obtain s1 where b: "executeHeartbeat_begin d agent s = (Inr (AwaitCheckForWork agent (Inr ?work)), s1)"
    and c1: "createdTasks (effects s1) = createdTasks (effects s)"
    using executeHeartbeat_begin_found[OF assms(1-3)]
    by (simp add: createdTasks_def)
  show ?thesis
  proof (cases "targetWorkspaceId d ?sel")
    case None
    with assms(4) b c1 show ?thesis
      by (simp add: executeHeartbeat_def resume_def afterCheckForWork_def Let_def
            workFoundTail_effects createdTasks_append)
         (simp add: createdTasks_def)
  next
    case (Some w)
    let ?prompt = "buildHeartbeatPrompt d agent ?work (targetWorkspacePath d ?sel)"
    let ?call = "CreateTask w ?prompt (''Heartbeat: '' @ displayName agent) (agent_id agent)"
    obtain k2 where r1: "afterCheckForWork d agent (Inr ?work) s1 =
        (Inr k2, s1\<lparr>effects := effects s1 @ [?call]\<rparr>)"
      and k2: "\<exists>r out. k2 = AwaitCreateTask agent r out"
      using Some assms(4) by (simp add: afterCheckForWork_def Let_def)
    from k2 obtain r out where k2': "k2 = AwaitCreateTask agent r out" by blast
    have "executeHeartbeat d agent s = resume d k2 (s1\<lparr>effects := effects s1 @ [?call]\<rparr>)"
      using b r1 by (simp add: executeHeartbeat_def resume_def)
    then have "createdTasks (effects (snd (executeHeartbeat d agent s))) =
        createdTasks (effects (s1\<lparr>effects := effects s1 @ [?call]\<rparr>))"
      unfolding k2' by (simp add: snd_resume_task createdTasks_afterCreateTask)
    also have "\<dots> = createdTasks (effects s) @ [?call]"
      using c1 by (simp add: createdTasks_append) (simp add: createdTasks_def)
    finally show ?thesis using Some by (simp add: Let_def)
  qed
qed



lemma js_inject: "js a = js b \<longleftrightarrow> a = b"
  by (simp add: js_def inj_map_eq_map inj_on_def)

lemma js_eq_Nil: "js a = [] \<longleftrightarrow> a = []"
  by (simp add: js_def)

lemma trim_ws1: "trim (js ''ws-1'') = js ''ws-1''"
  by (simp add: trim_def isWhiteSpace_def js_def)

lemma trim_ws2: "trim (js '' ws-2 '') = js ''ws-2''"
  by (simp add: trim_def isWhiteSpace_def js_def)

lemma trim_p1: "trim (js ''/work/one'') = js ''/work/one''"
  by (simp add: trim_def isWhiteSpace_def js_def)


text \<open>A workspace id padded with no-break spaces (U+00A0) is trimmed as well.\<close>

lemma trim_nbsp: "trim (0xA0 # js ''ws-1'' @ [0xA0]) = js ''ws-1''"
  by (simp add: trim_def isWhiteSpace_def js_def)

lemma collect_busy: "collectCandidates workBusy = [(js ''ws-1'', 100, 2), (js ''ws-2'', 50, 1)]"
  by (simp add: collectCandidates_def workBusy_def mention1_def task2_def addCandidate_def
        trim_ws1 trim_ws2 js_inject js_eq_Nil Let_def)

lemma sorted_busy:
  "arraySort (compareCandidates lexicalCompare) (collectCandidates workBusy) =
     [(js ''ws-1'', 100, 2), (js ''ws-2'', 50, 1)]"
  by (simp add: collect_busy arraySort_def compareCandidates_def)

lemma select_busy:
  "selectWorkspaceForWork depsBusy workBusy = Some \<lparr>workspaceId = js ''ws-1'', workspacePath = js ''/work/one''\<rparr>"
  by (simp add: selectWorkspaceForWork_def depsBusy_def depsIdle_def sorted_busy trim_p1
        js_inject js_eq_Nil)



lemma run_busy: "running initState (agent_id agentA) \<noteq> Some True"
  by (simp add: initState_def)





lemma pending_busy: "getPendingForAgent depsBusy (agent_id agentA) = Inr [mention1]"
  and tasks_busy: "getTasksForAgent depsBusy (agent_id agentA) = Inr [task2]"
  by (simp_all add: depsBusy_def)





lemma executeHeartbeat_begin_guarded:
  "running s (agent_id agent) = Some True \<Longrightarrow>
     executeHeartbeat_begin d agent s =
       (Inl (errorResult (agent_id agent) ''Heartbeat already running''), s)"
  by (simp add: executeHeartbeat_begin_def)

lemma afterCheckForWork_no_work:
  "afterCheckForWork d agent
      (Inr \<lparr>pendingMentions = [], assignedTasks = [], relevantActivities = []\<rparr>) s =
     (let result = \<lparr>res_agentRoleId = agent_id agent, res_status = ResultOk,
                     res_pendingMentions = 0, res_assignedTasks = 0,
                     res_relevantActivities = 0, res_taskCreated = None, res_error = None\<rparr>
      in (Inl result,
          s\<lparr>running := (running s)(agent_id agent \<mapsto> False),
            effects := effects s @
              [Emit (mkEvent NoWork agent s (Some result) None),
               UpdateHeartbeatStatus (agent_id agent) StatusSleeping (Some (clock s)),
               Emit (mkEvent Completed agent s (Some result) None)]\<rparr>))"
  by (simp add: afterCheckForWork_def completeRun_effects emitHeartbeatEvent_def mkEvent_def)

text \<open>A run returns: it is suspended at most twice.\<close>

lemma executeHeartbeat_begin_shape:
  "(\<exists>r. executeHeartbeat_begin d agent s = (Inl r, s)) \<or>
   (\<exists>w s'. executeHeartbeat_begin d agent s = (Inr (AwaitCheckForWork agent w), s'))"
  by (simp add: executeHeartbeat_begin_def Let_def split: prod.splits)

lemma afterCheckForWork_shape:
  "(\<exists>r s'. afterCheckForWork d agent w s = (Inl r, s')) \<or>
   (\<exists>r out s'. afterCheckForWork d agent w s = (Inr (AwaitCreateTask agent r out), s'))"
  by (cases w) (auto simp: afterCheckForWork_def Let_def split: prod.splits option.splits)

lemma executeHeartbeat_returns: "\<exists>r s'. executeHeartbeat d agent s = (Inl r, s')"
proof -
  from executeHeartbeat_begin_shape[of d agent s] show ?thesis
  proof (elim disjE exE)
    fix r assume "executeHeartbeat_begin d agent s = (Inl r, s)"
    then show ?thesis by (simp add: executeHeartbeat_def)
  next
    fix w s1 assume b: "executeHeartbeat_begin d agent s = (Inr (AwaitCheckForWork agent w), s1)"
    from afterCheckForWork_shape[of d agent w s1] show ?thesis
    proof (elim disjE exE)
      fix r s2 assume "afterCheckForWork d agent w s1 = (Inl r, s2)"
      with b show ?thesis by (simp add: executeHeartbeat_def resume_def)
    next
      fix r out s2
      assume "afterCheckForWork d agent w s1 = (Inr (AwaitCreateTask agent r out), s2)"
      with b show ?thesis
        by (simp add: executeHeartbeat_def resume_def split: prod.splits)
    qed
  qed
qed

text \<open>Entering a run for one agent leaves the flags of the others and the timers alone.\<close>

lemma executeHeartbeat_begin_other_agent:
  assumes "agent_id agent \<noteq> other"
  shows "running (snd (executeHeartbeat_begin d agent s)) other = running s other"
    and "timers (snd (executeHeartbeat_begin d agent s)) = timers s"
  using assms
  by (auto simp: executeHeartbeat_begin_def checkForWork_def updateHeartbeatStatus_def
        emitHeartbeatEvent_def Let_def split: sum.splits)

text \<open>With an antisymmetric \<open>localeCompare\<close> the best candidate is one workspace.\<close>

lemma bestCandidate_unique:
  assumes anti: "\<forall>x y. localeCompare d x y \<le> 0 \<and> localeCompare d y x \<le> 0 \<longrightarrow> x = y"
    and "bestCandidate d work w" and "bestCandidate d work w'"
  shows "w = w'"
proof -
  from assms(2) obtain c where c: "c \<in> set (contributions work)" "fst c = w"
      "isCandidate work c" "hasPath d w"
      "\<forall>x \<in> set (contributions work). isCandidate work x \<and> hasPath d (fst x)
          \<longrightarrow> ranksBefore (localeCompare d) c x"
    unfolding bestCandidate_def by blast
  from assms(3) obtain c' where c': "c' \<in> set (contributions work)" "fst c' = w'"
      "isCandidate work c'" "hasPath d w'"
      "\<forall>x \<in> set (contributions work). isCandidate work x \<and> hasPath d (fst x)
          \<longrightarrow> ranksBefore (localeCompare d) c' x"
    unfolding bestCandidate_def by blast
  from c(5) c'(1,2,3,4) have 1: "ranksBefore (localeCompare d) c c'" by blast
  from c'(5) c(1,2,3,4) have 2: "ranksBefore (localeCompare d) c' c" by blast
  obtain a b e where cc: "c = (a, b, e)" by (cases c) auto
  obtain a' b' e' where cc': "c' = (a', b', e')" by (cases c') auto
  from 1 2 have "localeCompare d a a' \<le> 0 \<and> localeCompare d a' a \<le> 0"
    unfolding cc cc' ranksBefore_def by auto
  with anti have "a = a'" by blast
  with c(2) c'(2) cc cc' show ?thesis by simp
qed

text \<open>
  A mention whose workspace id is \<open>ws-1\<close> between two no-break spaces (U+00A0): the id is
  trimmed, and the task goes to \<open>ws-1\<close>, not to the default workspace.
\<close>

lemma select_nbsp:
  "selectWorkspaceForWork depsNbsp workNbsp =
     Some \<lparr>workspaceId = js ''ws-1'', workspacePath = js ''/work/one''\<rparr>"
  by (simp add: selectWorkspaceForWork_def collectCandidates_def workNbsp_def mentionNbsp_def
        addCandidate_def trim_nbsp js_eq_Nil Let_def arraySort_def depsNbsp_def depsBusy_def
        depsIdle_def trim_p1 js_inject)

lemma created_nbsp:
  "createdTasks (effects (snd (executeHeartbeat depsNbsp agentA initState))) =
     [CreateTask (js ''ws-1'') (buildHeartbeatPrompt depsNbsp agentA workNbsp (Some (js ''/work/one'')))
        ''Heartbeat: Scout'' ''agent-a'']"
proof -
  have p: "getPendingForAgent depsNbsp (agent_id agentA) = Inr [mentionNbsp]"
    and t: "getTasksForAgent depsNbsp (agent_id agentA) = Inr []"
    by (simp_all add: depsNbsp_def)
  have "[mentionNbsp] \<noteq> [] \<or> ([] :: task list) \<noteq> []" by simp
  note ct = createdTasks_with_work[OF run_busy p t this,
      folded workNbsp_def, unfolded Let_def select_nbsp]
  then show ?thesis
    by (simp add: targetWorkspaceId_def targetWorkspacePath_def js_eq_Nil)
       (simp add: initState_def createdTasks_def agentA_def)
qed






section \<open>HeartbeatService: the claims\<close>

text \<open>
  C10. For an \<open>agentRoleId\<close> that the repository has no agent role for,
  \<open>triggerHeartbeat\<close> returns at once the result with status error, the message
  ``Agent role not found'' and the three counts 0, and leaves the service as it was: the
  trace of effects (no task created, no event emitted, no status written), the timers and
  the running flags are those of the state before the call.
\<close>

theorem triggerHeartbeat_unknown_agent:
  assumes "findById d agentRoleId = None"
  shows "triggerHeartbeat d agentRoleId s =
     (Inl \<lparr>res_agentRoleId = agentRoleId, res_status = ResultError, res_pendingMentions = 0,
           res_assignedTasks = 0, res_relevantActivities = 0, res_taskCreated = None,
           res_error = Some ''Agent role not found''\<rparr>, s)"
  using assms by (simp add: triggerHeartbeat_def errorResult_def)

text \<open>C10, at the id \<open>ghost\<close>, which \<open>depsIdle\<close> has no role for.\<close>

theorem triggerHeartbeat_unknown_agent_witness:
  "fst (triggerHeartbeat depsIdle ''ghost'' initState) =
     Inl \<lparr>res_agentRoleId = ''ghost'', res_status = ResultError, res_pendingMentions = 0,
           res_assignedTasks = 0, res_relevantActivities = 0, res_taskCreated = None,
           res_error = Some ''Agent role not found''\<rparr>
   \<and> snd (triggerHeartbeat depsIdle ''ghost'' initState) = initState"
proof -
  have "findById depsIdle ''ghost'' = None" by (simp add: depsIdle_def)
  from triggerHeartbeat_unknown_agent[OF this, of initState] show ?thesis by simp
qed

text \<open>
  C5. A run (the agent's running flag is not set at entry) whose work check finds no pending
  mention and no assigned task returns the result with status ok and counts 0, emits exactly
  one \<open>no_work\<close> event (the trace holds one more than before) and calls \<open>createTask\<close>
  not at all.
\<close>

theorem heartbeat_no_work:
  assumes "running s (agent_id agent) \<noteq> Some True"
    and "getPendingForAgent d (agent_id agent) = Inr []"
    and "getTasksForAgent d (agent_id agent) = Inr []"
  shows "fst (executeHeartbeat d agent s) =
           Inl \<lparr>res_agentRoleId = agent_id agent, res_status = ResultOk,
                res_pendingMentions = 0, res_assignedTasks = 0,
                res_relevantActivities = 0, res_taskCreated = None, res_error = None\<rparr>
       \<and> length (eventsOfType NoWork (effects (snd (executeHeartbeat d agent s)))) =
           length (eventsOfType NoWork (effects s)) + 1
       \<and> createdTasks (effects (snd (executeHeartbeat d agent s))) = createdTasks (effects s)"
  using assms
  by (simp add: executeHeartbeat_def executeHeartbeat_begin_found resume_def
        afterCheckForWork_no_work eventsOfType_def createdTasks_def mkEvent_def Let_def)

text \<open>C5, for the agent of \<open>depsIdle\<close>, which has neither mentions nor tasks.\<close>

theorem heartbeat_no_work_witness:
  "length (eventsOfType NoWork (effects (snd (executeHeartbeat depsIdle agentA initState)))) = 1
   \<and> createdTasks (effects (snd (executeHeartbeat depsIdle agentA initState))) = []"
proof -
  have "getPendingForAgent depsIdle (agent_id agentA) = Inr []"
    and "getTasksForAgent depsIdle (agent_id agentA) = Inr []"
    by (simp_all add: depsIdle_def)
  from heartbeat_no_work[OF run_busy this] show ?thesis
    by (simp add: initState_def eventsOfType_def createdTasks_def)
qed




section \<open>HeartbeatService: a run that overlaps another\<close>

text \<open>
  The agent of \<open>depsBusy\<close> has work. Its first run is suspended at
  \<^verbatim>\<open>await this.deps.createTask(...)\<close> (state \<open>overlapS2\<close>) when the agent's
  configuration is updated (\<open>overlapS3\<close>); the timer this arms is due at once and fires
  (\<open>overlapS4\<close>), and the run it starts goes on to its own \<^verbatim>\<open>createTask\<close>
  (\<open>overlapS5\<close>), all before the first run has resumed.
\<close>

definition overlapS1 :: hb_state where
  "overlapS1 = snd (executeHeartbeat_begin depsBusy agentA initState)"

definition overlapS2 :: hb_state where
  "overlapS2 = snd (resume depsBusy (AwaitCheckForWork agentA (Inr workBusy)) overlapS1)"

definition overlapS3 :: hb_state where
  "overlapS3 = updateAgentConfig depsBusy ''agent-a'' True overlapS2"

definition overlapS4 :: hb_state where
  "overlapS4 = snd (timerFire depsBusy ''agent-a'' overlapS3)"

definition overlapS5 :: hb_state where
  "overlapS5 = snd (resume depsBusy (AwaitCheckForWork agentA (Inr workBusy)) overlapS4)"

lemma begin_busy:
  assumes "running s ''agent-a'' \<noteq> Some True"
  shows "executeHeartbeat_begin depsBusy agentA s =
     (Inr (AwaitCheckForWork agentA (Inr workBusy)),
      s\<lparr>running := (running s)(''agent-a'' \<mapsto> True),
        effects := effects s @
          [UpdateHeartbeatStatus ''agent-a'' StatusRunning None,
           Emit (mkEvent Started agentA s None None),
           GetPendingForAgent ''agent-a'', GetTasksForAgent ''agent-a'']\<rparr>)"
proof -
  have a: "agent_id agentA = ''agent-a''" by (simp add: agentA_def)
  from assms have r: "running s (agent_id agentA) \<noteq> Some True" by (simp add: a)
  from executeHeartbeat_begin_found[OF r pending_busy tasks_busy] show ?thesis
    by (simp add: a workBusy_def)
qed

lemma target_busy:
  "targetWorkspaceId depsBusy (Some \<lparr>workspaceId = js ''ws-1'', workspacePath = js ''/work/one''\<rparr>)
     = Some (js ''ws-1'')"
  by (simp add: targetWorkspaceId_def js_eq_Nil)

lemma afterCheckForWork_busy:
  "afterCheckForWork depsBusy agentA (Inr workBusy) s =
     (Inr (AwaitCreateTask agentA
             \<lparr>res_agentRoleId = ''agent-a'', res_status = ResultWorkDone,
               res_pendingMentions = 1, res_assignedTasks = 1, res_relevantActivities = 0,
               res_taskCreated = None, res_error = None\<rparr>
             (Inr newTask)),
      s\<lparr>effects := effects s @
          [CreateTask (js ''ws-1'')
             (buildHeartbeatPrompt depsBusy agentA workBusy (Some (js ''/work/one'')))
             ''Heartbeat: Scout'' ''agent-a'']\<rparr>)"
proof -
  have w: "pendingMentions workBusy = [mention1]" "assignedTasks workBusy = [task2]"
      "relevantActivities workBusy = []"
    by (simp_all add: workBusy_def)
  have c: "createTask depsBusy = (\<lambda>w p t a. Inr newTask)"
    by (simp add: depsBusy_def depsIdle_def)
  show ?thesis
    by (simp add: afterCheckForWork_def Let_def w target_busy select_busy
          targetWorkspacePath_def c)
       (simp add: agentA_def)
qed

lemma overlapS1_fields:
  "running overlapS1 = [''agent-a'' \<mapsto> True]"
  "timers overlapS1 = Map.empty"
  "started overlapS1 = True"
  "clock overlapS1 = 1700000000000"
  "workChecks ''agent-a'' (effects overlapS1) =
     [GetPendingForAgent ''agent-a'', GetTasksForAgent ''agent-a'']"
  "createdTasks (effects overlapS1) = []"
  unfolding overlapS1_def
  by (simp_all add: begin_busy initState_def workChecks_def createdTasks_def)

lemma overlapS2_fields:
  "running overlapS2 = [''agent-a'' \<mapsto> True]"
  "timers overlapS2 = Map.empty"
  "started overlapS2 = True"
  "clock overlapS2 = 1700000000000"
  "workChecks ''agent-a'' (effects overlapS2) =
     [GetPendingForAgent ''agent-a'', GetTasksForAgent ''agent-a'']"
  "length (createdTasks (effects overlapS2)) = 1"
  unfolding overlapS2_def
  by (simp_all add: resume_def afterCheckForWork_busy overlapS1_fields workChecks_def
        createdTasks_def overlapS1_fields[unfolded workChecks_def createdTasks_def])

lemma overlapS3_fields:
  "running overlapS3 ''agent-a'' = None"
  "timers overlapS3 ''agent-a'' = Some (clock overlapS3)"
  "effects overlapS3 = effects overlapS2"
  unfolding overlapS3_def
  by (simp_all add: updateAgentConfig_def cancelHeartbeat_def scheduleHeartbeat_def Let_def
        depsBusy_def depsIdle_def agentA_def orDefault_def overlapS2_fields)

lemma timerFire_busy:
  "timerFire depsBusy ''agent-a'' overlapS3 =
     (Some (fst (executeHeartbeat_begin depsBusy agentA overlapS3)),
      snd (executeHeartbeat_begin depsBusy agentA overlapS3))"
  by (simp add: timerFire_def depsBusy_def depsIdle_def split: prod.splits)
     (simp add: agentA_def)

lemma overlapS4_fields:
  "workChecks ''agent-a'' (effects overlapS4) =
     [GetPendingForAgent ''agent-a'', GetTasksForAgent ''agent-a'',
      GetPendingForAgent ''agent-a'', GetTasksForAgent ''agent-a'']"
  "length (createdTasks (effects overlapS4)) = 1"
  unfolding overlapS4_def timerFire_busy
  by (simp_all add: begin_busy overlapS3_fields overlapS2_fields workChecks_def createdTasks_def
        overlapS2_fields[unfolded workChecks_def createdTasks_def])

text \<open>
  C3, where the code departs from it. The first run is in progress (suspended at its
  \<^verbatim>\<open>createTask\<close>, flag set); \<^verbatim>\<open>updateAgentConfig\<close> deletes the flag and arms a
  timer that is due at once; the timer's run is not turned away with ``Heartbeat already
  running'' but checks for work a second time and calls \<^verbatim>\<open>createTask\<close> a second
  time.
\<close>

theorem heartbeat_overlap_after_config_change:
  "fst (executeHeartbeat_begin depsBusy agentA initState) =
     Inr (AwaitCheckForWork agentA (Inr workBusy))
   \<and> fst (resume depsBusy (AwaitCheckForWork agentA (Inr workBusy)) overlapS1) =
       Inr (AwaitCreateTask agentA
              \<lparr>res_agentRoleId = ''agent-a'', res_status = ResultWorkDone,
                res_pendingMentions = 1, res_assignedTasks = 1, res_relevantActivities = 0,
                res_taskCreated = None, res_error = None\<rparr>
              (Inr newTask))
   \<and> running overlapS2 ''agent-a'' = Some True
   \<and> running overlapS3 ''agent-a'' = None
   \<and> timers overlapS3 ''agent-a'' = Some (clock overlapS3)
   \<and> fst (timerFire depsBusy ''agent-a'' overlapS3) =
       Some (Inr (AwaitCheckForWork agentA (Inr workBusy)))
   \<and> workChecks ''agent-a'' (effects overlapS4) =
       [GetPendingForAgent ''agent-a'', GetTasksForAgent ''agent-a'',
        GetPendingForAgent ''agent-a'', GetTasksForAgent ''agent-a'']
   \<and> length (createdTasks (effects overlapS5)) = 2"
proof -
  have s5: "length (createdTasks (effects overlapS5)) = 2"
    unfolding overlapS5_def
    using overlapS4_fields(2)
    by (simp add: resume_def afterCheckForWork_busy createdTasks_def)
  show ?thesis
    by (simp add: begin_busy initState_def resume_def afterCheckForWork_busy overlapS2_fields
          overlapS3_fields overlapS4_fields timerFire_busy s5)
qed

section \<open>SearchProviderFactory: retry of a provider call\<close>

text \<open>
  Modelled from the spec: \<^verbatim>\<open>SearchProviderFactory.searchWithRetry\<close> and
  \<^verbatim>\<open>isTransientSearchError\<close> (\<^verbatim>\<open>agent/search/provider-factory.ts\<close>) are not among
  the sources; only their test file is. The spec (4.3, 7): transient provider-call failures
  (network and rate-limit class errors) are retried with bounded exponential backoff, then the
  failure is raised; permanent errors are not retried and surface immediately. The test file
  fixes the rest: the messages that count as transient; the delays, 400 ms before the first
  retry and 800 ms before the second, which it writes \<open>400 * 1\<close> and \<open>400 * 2\<close>, so
  that the delay after attempt \<open>k\<close> is taken to be \<open>400 * k\<close>; the bound
  \<open>maxAttempts\<close>; and the error ``Search failed'' raised when the value caught last is
  \<^verbatim>\<open>undefined\<close>.

  A thrown value is its message, \<open>None\<close> when it is \<^verbatim>\<open>null\<close>, \<^verbatim>\<open>undefined\<close>
  or has no message. The provider is the outcome of its \<open>n\<close>-th call.
\<close>

definition toLowerChar :: "char \<Rightarrow> char" where
  "toLowerChar c =
     (let n = (of_char c :: nat) in if 65 \<le> n \<and> n \<le> 90 then char_of (n + 32) else c)"

definition toLowerCase :: "string \<Rightarrow> string" where
  "toLowerCase s = map toLowerChar s"

fun startsWith :: "string \<Rightarrow> string \<Rightarrow> bool" where
  "startsWith s [] = True"
| "startsWith [] (p # ps) = False"
| "startsWith (c # cs) (p # ps) = (c = p \<and> startsWith cs ps)"

fun includesStr :: "string \<Rightarrow> string \<Rightarrow> bool" where
  "includesStr [] p = (p = [])"
| "includesStr (c # cs) p = (startsWith (c # cs) p \<or> includesStr cs p)"

definition transientPatterns :: "string list" where
  "transientPatterns =
     [''rate limit'', ''429'', ''too many requests'', ''timeout'', ''etimedout'',
      ''econnreset'', ''eai_again'', ''502'', ''503'', ''504'', ''service unavailable'']"

text \<open>
  Modelled from the spec: \<^verbatim>\<open>isTransientSearchError\<close>, missing from the sources. An
  error is transient when its message, in lower case, includes one of the patterns; the
  patterns are read off the test file.
\<close>

definition isTransientSearchError :: "string option \<Rightarrow> bool" where
  "isTransientSearchError err =
     (case err of
        None \<Rightarrow> False
      | Some message \<Rightarrow> list_ex (includesStr (toLowerCase message)) transientPatterns)"

record 'r retry_outcome =
  outcome :: "string option + 'r"
  calls :: nat
  sleeps :: "nat list"

text \<open>What is raised at the end: \<^verbatim>\<open>lastError || new Error('Search failed')\<close>.\<close>

definition raised :: "string option \<Rightarrow> string option" where
  "raised lastError = (case lastError of None \<Rightarrow> Some ''Search failed'' | Some m \<Rightarrow> Some m)"

text \<open>
  Modelled from the spec: \<^verbatim>\<open>searchWithRetry\<close>, missing from the sources. The loop
  \<^verbatim>\<open>for (attempt = 1; attempt <= maxAttempts; attempt++)\<close>, by the number of
  attempts left; \<open>lastError\<close> is the value caught last. An attempt that fails with a
  transient error is followed by a sleep and the next attempt, unless it was the last one
  allowed.
\<close>

fun retryLoop ::
  "(nat \<Rightarrow> string option + 'r) \<Rightarrow> nat \<Rightarrow> nat \<Rightarrow> string option \<Rightarrow> nat list \<Rightarrow> 'r retry_outcome" where
  "retryLoop search attempt 0 lastError slept =
     \<lparr>outcome = Inl (raised lastError), calls = attempt - 1, sleeps = slept\<rparr>"
| "retryLoop search attempt (Suc left) lastError slept =
     (case search attempt of
        Inr result \<Rightarrow> \<lparr>outcome = Inr result, calls = attempt, sleeps = slept\<rparr>
      | Inl err \<Rightarrow>
          if \<not> isTransientSearchError err \<or> left = 0
          then \<lparr>outcome = Inl (raised err), calls = attempt, sleeps = slept\<rparr>
          else retryLoop search (Suc attempt) left err (slept @ [400 * attempt]))"

definition searchWithRetry :: "(nat \<Rightarrow> string option + 'r) \<Rightarrow> nat \<Rightarrow> 'r retry_outcome" where
  "searchWithRetry search maxAttempts = retryLoop search 1 maxAttempts None []"

text \<open>The expectations of the test file, on this model.\<close>

lemma isTransientSearchError_tests:
  "isTransientSearchError (Some ''Rate limit exceeded'')"
  "isTransientSearchError (Some ''Error 429: Too many requests'')"
  "isTransientSearchError (Some ''too many requests'')"
  "isTransientSearchError (Some ''Request timeout'')"
  "isTransientSearchError (Some ''ETIMEDOUT'')"
  "isTransientSearchError (Some ''ECONNRESET'')"
  "isTransientSearchError (Some ''EAI_AGAIN'')"
  "isTransientSearchError (Some ''Error 503'')"
  "isTransientSearchError (Some ''Error 502'')"
  "isTransientSearchError (Some ''Error 504'')"
  "isTransientSearchError (Some ''Service unavailable'')"
  "\<not> isTransientSearchError (Some ''Invalid API key'')"
  "\<not> isTransientSearchError (Some ''Authentication failed'')"
  "\<not> isTransientSearchError (Some ''Bad request'')"
  "\<not> isTransientSearchError (Some ''Not found'')"
  "\<not> isTransientSearchError None"
  by code_simp+

lemma retryLoop_stops_at:
  assumes "\<forall>j. attempt \<le> j \<and> j < k \<longrightarrow> (\<exists>e. search j = Inl e \<and> isTransientSearchError e)"
    and "attempt \<le> k" and "k < attempt + left"
    and "(\<exists>r. search k = Inr r) \<or> (\<exists>e. search k = Inl e \<and> \<not> isTransientSearchError e)
         \<or> k = attempt + left - 1"
  shows "retryLoop search attempt left lastError slept =
     \<lparr>outcome = (case search k of Inr r \<Rightarrow> Inr r | Inl e \<Rightarrow> Inl (raised e)),
      calls = k,
      sleeps = slept @ map (\<lambda>j. 400 * j) [attempt ..< k]\<rparr>"
  using assms
proof (induction left arbitrary: attempt lastError slept)
  case 0
  then show ?case by simp
next
  case (Suc left)
  show ?case
  proof (cases "attempt = k")
    case True
    show ?thesis
    proof (cases "search k")
      case (Inr r)
      with True show ?thesis by simp
    next
      case (Inl e)
      show ?thesis
      proof (cases "isTransientSearchError e")
        case False
        with True Inl show ?thesis by simp
      next
        case tr: True
        with Inl Suc.prems(4) True have "left = 0" by auto
        with True Inl show ?thesis by simp
      qed
    qed
  next
    case False
    with Suc.prems(2) have lt: "attempt < k" by simp
    with Suc.prems(1) obtain e where e: "search attempt = Inl e" "isTransientSearchError e"
      by (metis le_refl)
    from lt Suc.prems(3) have left: "left \<noteq> 0" by simp
    have 1: "\<forall>j. Suc attempt \<le> j \<and> j < k \<longrightarrow> (\<exists>e. search j = Inl e \<and> isTransientSearchError e)"
      using Suc.prems(1) by auto
    have 2: "Suc attempt \<le> k" using lt by simp
    have 3: "k < Suc attempt + left" using Suc.prems(3) by simp
    have 4: "(\<exists>r. search k = Inr r) \<or> (\<exists>e. search k = Inl e \<and> \<not> isTransientSearchError e)
         \<or> k = Suc attempt + left - 1"
      using Suc.prems(4) by simp
    from Suc.IH[OF 1 2 3 4, of e "slept @ [400 * attempt]"] e left lt
    show ?thesis by (simp add: upt_conv_Cons)
  qed
qed

lemma sorted_delays: "sorted_wrt (<) (map (\<lambda>j. 400 * j) [a ..< b :: nat])"
  by (simp add: sorted_wrt_map sorted_wrt_iff_nth_less)

lemma searchWithRetry_retry_then_success:
  assumes "search 1 = Inl err" and "isTransientSearchError err" and "search 2 = Inr r"
  shows "searchWithRetry search (Suc (Suc n)) = \<lparr>outcome = Inr r, calls = 2, sleeps = [400]\<rparr>"
  using assms by (simp add: searchWithRetry_def numeral_2_eq_2)

text \<open>
  C6. Let attempt \<open>k\<close> be the first that does not fail with a transient error, or the last
  attempt allowed when all of them do. Then the provider is called \<open>k\<close> times and no more
  (at most \<open>maxAttempts\<close>); after the \<open>j\<close>-th failed attempt, \<open>j < k\<close>, the call
  sleeps \<open>400 * j\<close> milliseconds, so 400 before the first retry and strictly more before
  each later one; and what attempt \<open>k\<close> gives is what the call gives: its result, or its
  error raised. So an error that is not transient is raised at once, after one attempt when
  it is the first, and transient errors on every attempt end with the last one raised.
\<close>

theorem searchWithRetry_stops:
  assumes "1 \<le> k" and "k \<le> maxAttempts"
    and "\<forall>j. 1 \<le> j \<and> j < k \<longrightarrow> (\<exists>e. search j = Inl e \<and> isTransientSearchError e)"
    and "(\<exists>r. search k = Inr r) \<or> (\<exists>e. search k = Inl e \<and> \<not> isTransientSearchError e)
         \<or> k = maxAttempts"
  shows "calls (searchWithRetry search maxAttempts) = k
       \<and> sleeps (searchWithRetry search maxAttempts) = map (\<lambda>j. 400 * j) [1 ..< k]
       \<and> sorted_wrt (<) (sleeps (searchWithRetry search maxAttempts))
       \<and> outcome (searchWithRetry search maxAttempts) =
           (case search k of Inr r \<Rightarrow> Inr r | Inl e \<Rightarrow> Inl (raised e))"
proof -
  have 3: "k < 1 + maxAttempts" using assms(2) by simp
  have 4: "(\<exists>r. search k = Inr r) \<or> (\<exists>e. search k = Inl e \<and> \<not> isTransientSearchError e)
         \<or> k = 1 + maxAttempts - 1"
    using assms(4) by simp
  note loop = retryLoop_stops_at[OF assms(3) assms(1) 3 4, of None "[]"]
  then have s: "sleeps (searchWithRetry search maxAttempts) = map (\<lambda>j. 400 * j) [1 ..< k]"
    by (simp add: searchWithRetry_def)
  from loop s show ?thesis
    by (simp add: searchWithRetry_def sorted_delays)
qed

text \<open>
  C6, for a provider that always answers ``Rate limit exceeded'' and one that always answers
  ``Invalid API key'', with three attempts allowed.
\<close>

theorem searchWithRetry_stops_witness:
  "calls (searchWithRetry (\<lambda>k. Inl (Some ''Rate limit exceeded'') :: string option + unit) 3) = 3
   \<and> sleeps (searchWithRetry (\<lambda>k. Inl (Some ''Rate limit exceeded'') :: string option + unit) 3)
       = [400, 800]
   \<and> outcome (searchWithRetry (\<lambda>k. Inl (Some ''Rate limit exceeded'') :: string option + unit) 3)
       = Inl (Some ''Rate limit exceeded'')
   \<and> calls (searchWithRetry (\<lambda>k. Inl (Some ''Invalid API key'') :: string option + unit) 3) = 1
   \<and> sleeps (searchWithRetry (\<lambda>k. Inl (Some ''Invalid API key'') :: string option + unit) 3) = []
   \<and> outcome (searchWithRetry (\<lambda>k. Inl (Some ''Invalid API key'') :: string option + unit) 3)
       = Inl (Some ''Invalid API key'')"
proof -
  let ?limited = "\<lambda>k::nat. Inl (Some ''Rate limit exceeded'') :: string option + unit"
  let ?denied = "\<lambda>k::nat. Inl (Some ''Invalid API key'') :: string option + unit"
  have t: "isTransientSearchError (Some ''Rate limit exceeded'')"
    and p: "\<not> isTransientSearchError (Some ''Invalid API key'')"
    by (rule isTransientSearchError_tests)+
  have a1: "(1::nat) \<le> 3" and a2: "(3::nat) \<le> 3" and b2: "(1::nat) \<le> 1" by simp_all
  have a3: "\<forall>j. 1 \<le> j \<and> j < 3 \<longrightarrow> (\<exists>e. ?limited j = Inl e \<and> isTransientSearchError e)"
    using t by simp
  have a4: "(\<exists>r. ?limited 3 = Inr r) \<or> (\<exists>e. ?limited 3 = Inl e \<and> \<not> isTransientSearchError e)
         \<or> (3::nat) = 3" by simp
  have b3: "\<forall>j. 1 \<le> j \<and> j < 1 \<longrightarrow> (\<exists>e. ?denied j = Inl e \<and> isTransientSearchError e)"
    by simp
  have b4: "(\<exists>r. ?denied 1 = Inr r) \<or> (\<exists>e. ?denied 1 = Inl e \<and> \<not> isTransientSearchError e)
         \<or> (1::nat) = 3" using p by simp
  have u: "map ((*) 400) [Suc 0 ..< 3] = [400, 800 :: nat]" by (simp add: upt_conv_Cons)
  from searchWithRetry_stops[OF a1 a2 a3 a4] searchWithRetry_stops[OF b2 a1 b3 b4]
  show ?thesis by (simp add: u raised_def)
qed

end
